theory Spec2Isabelle
  imports Main "HOL-Library.Word"
begin

section \<open>Data model of the drawing service (src/src/index.ts)\<close>

text \<open>
  JavaScript strings are sequences of UTF-16 code units, and \<open>.length\<close> counts code
  units, so request text is modelled as a list of 16-bit words.  The fixed reason strings
  of the responses are plain ASCII and stay HOL strings.
\<close>

type_synonym js_string = "16 word list"

definition js :: "string \<Rightarrow> js_string" where
  "js s = map (\<lambda>c. of_nat (of_char c)) s"

text \<open>Rows of the two tables, with the columns named in the SQL statements.\<close>

record image_row =
  img_id :: js_string
  img_author :: js_string
  img_ip :: "js_string option"
  img_description :: "js_string option"
  img_imgurId :: js_string
  img_count :: int
  img_deleteHash :: js_string
  img_created_at :: int

record history_row =
  hist_id :: js_string
  hist_author :: js_string
  hist_ip :: "js_string option"
  hist_image_id :: js_string
  hist_created_at :: int

text \<open>
  The three stores a submission can write: the tables \<open>Images\<close> and \<open>Histories\<close> of
  \<open>env.DB\<close> (lists of rows, since no schema constraint is visible in the source) and
  the objects of \<open>env.BUCKET\<close>.
\<close>

record store =
  images :: "image_row list"
  histories :: "history_row list"
  bucket :: "js_string \<rightharpoonup> 8 word list"

text \<open>
  The type \<open>PostRequest\<close> of \<open>handlePost\<close>.  A field that is absent (or \<open>null\<close>)
  in the JSON body is \<open>None\<close>; the TypeScript annotation is not checked at run time,
  so every field can be absent.  A present \<open>payload\<close> is an array of integers.
\<close>

record post_request =
  req_id :: "js_string option"
  req_payload :: "int list option"
  req_description :: "js_string option"
  req_author :: "js_string option"
  req_bs :: "js_string option"

text \<open>
  \<open>request.json()\<close> rejects when the body is not JSON, and yields \<open>null\<close> for the
  body \<open>null\<close>.
\<close>

datatype json_body = Unparsable | Parsed "post_request option"

record request =
  http_method :: string
  cf_connecting_ip :: "js_string option"
  json_body :: json_body

text \<open>
  What the collaborators answer during one request.  A database statement either takes
  effect or reports \<open>.error\<close> and changes nothing; the Preview Host answers with
  \<open>ok\<close> or not; \<open>BUCKET.put\<close> stores the object, returns \<open>null\<close> or throws.
\<close>

datatype upload_response = UploadNotOk | UploadOk js_string js_string

datatype put_response = PutOk | PutNull | PutThrows

record env =
  select_error :: bool
  upload :: upload_response
  image_uuid :: js_string
  image_now :: int
  insert_image_error :: bool
  delete_ok :: bool
  update_error :: bool
  history_uuid :: js_string
  history_now :: int
  history_error :: bool
  put_result :: put_response
  delete_images_error :: bool
  delete_histories_error :: bool

text \<open>The calls a request makes on its collaborators, in the order they are issued.\<close>

datatype event =
    DbSelectImage js_string
  | ImgurUpload js_string
  | DbInsertImage js_string
  | ImgurDelete js_string
  | DbUpdateImage js_string
  | DbInsertHistory js_string
  | BucketPut js_string
  | DbDeleteImages js_string
  | DbDeleteHistories js_string

datatype response_body = Failure string | Success js_string

record response =
  resp_status :: nat
  resp_body :: response_body
  resp_cors :: bool

text \<open>A handler either returns a response or lets an exception escape.\<close>

datatype outcome = Thrown | Returned response

definition method_not_allowed :: response where
  "method_not_allowed = \<lparr>resp_status = 405, resp_body = Failure ''method not allowed'', resp_cors = True\<rparr>"

definition bad_request :: response where
  "bad_request = \<lparr>resp_status = 400, resp_body = Failure ''bad request'', resp_cors = True\<rparr>"

definition internal_server_error :: response where
  "internal_server_error =
     \<lparr>resp_status = 500, resp_body = Failure ''internal server error'', resp_cors = True\<rparr>"

definition invalid_image_id :: response where
  "invalid_image_id = \<lparr>resp_status = 400, resp_body = Failure ''invalid image id'', resp_cors = True\<rparr>"

definition image_completed :: response where
  "image_completed =
     \<lparr>resp_status = 423, resp_body = Failure ''this image is already completed'', resp_cors = False\<rparr>"

definition upload_rejected :: response where
  "upload_rejected = \<lparr>resp_status = 500, resp_body = Failure ''bad request'', resp_cors = True\<rparr>"

definition post_success :: "js_string \<Rightarrow> response" where
  "post_success imageId = \<lparr>resp_status = 200, resp_body = Success imageId, resp_cors = True\<rparr>"

section \<open>Validation (lines 133 to 170)\<close>

text \<open>\<open>json.payload[k]\<close>: \<open>undefined\<close> beyond the end of the array.\<close>

definition payload_at :: "int list \<Rightarrow> nat \<Rightarrow> int option" where
  "payload_at p k = (if k < length p then Some (p ! k) else None)"

text \<open>
  The outcome of the input check.  The disjunction of the source is evaluated left to
  right, so \<open>json.payload[0]\<close> is reached only when the body is not \<open>null\<close>,
  \<open>_bs\<close> is present and the description is short enough; reading index 0 of an absent
  payload throws a TypeError.
\<close>

datatype validation = Rejected | Faulted | Accepted js_string

definition default_author :: js_string where
  "default_author = [0x540D, 0x7121, 0x3057]"

definition validate :: "post_request option \<Rightarrow> validation" where
  "validate body =
     (case body of
        None \<Rightarrow> Rejected
      | Some json \<Rightarrow>
          if req_bs json = None then Rejected
          else if (case req_description json of None \<Rightarrow> False | Some d \<Rightarrow> length d > 20)
            then Rejected
          else (case req_payload json of
                  None \<Rightarrow> Faulted
                | Some p \<Rightarrow>
                    if payload_at p 0 \<noteq> Some 0x23 \<or> payload_at p 1 \<noteq> Some 0x52
                       \<or> payload_at p 2 \<noteq> Some 0xff \<or> payload_at p 3 \<noteq> Some 0xac
                    then Rejected
                    else (let author = (case req_author json of
                                          None \<Rightarrow> default_author | Some a \<Rightarrow> a)
                          in if length author > 20 then Rejected else Accepted author)))"

section \<open>The submission workflow (lines 172 to 428)\<close>

text \<open>
  \<open>rollBack\<close>: two DELETE statements whose results are not inspected.
\<close>

definition rollBack :: "env \<Rightarrow> js_string \<Rightarrow> store \<Rightarrow> store \<times> event list" where
  "rollBack e imageId s =
     (let s1 = (if delete_images_error e then s
                else s\<lparr>images := filter (\<lambda>r. img_id r \<noteq> imageId) (images s)\<rparr>);
          s2 = (if delete_histories_error e then s1
                else s1\<lparr>histories := filter (\<lambda>h. hist_image_id h \<noteq> imageId) (histories s1)\<rparr>)
      in (s2, [DbDeleteImages imageId, DbDeleteHistories imageId]))"

text \<open>
  Lines 374 to 427.  \<open>json.payload.slice(4)\<close> and the conversion to \<open>Uint8Array\<close>
  (each number modulo 256) happen inside the \<open>try\<close>; both failure branches call
  \<open>rollBack\<close> without looking at \<open>alreadyExists\<close>.
\<close>

definition persist_blob ::
  "post_request \<Rightarrow> js_string \<Rightarrow> env \<Rightarrow> store \<Rightarrow> event list \<Rightarrow> outcome \<times> store \<times> event list" where
  "persist_blob json imageId e s tr =
     (case req_payload json of
        None \<Rightarrow>
          (case rollBack e imageId s of
             (s', tr') \<Rightarrow> (Returned internal_server_error, s', tr @ tr'))
      | Some p \<Rightarrow>
          (let body = map word_of_int (drop 4 p);
               key = imageId @ js ''.bin'';
               tr1 = tr @ [BucketPut key]
           in case put_result e of
                PutOk \<Rightarrow>
                  (Returned (post_success imageId), s\<lparr>bucket := (bucket s)(key \<mapsto> body)\<rparr>, tr1)
              | PutNull \<Rightarrow>
                  (case rollBack e imageId s of
                     (s', tr') \<Rightarrow> (Returned internal_server_error, s', tr1 @ tr'))
              | PutThrows \<Rightarrow>
                  (case rollBack e imageId s of
                     (s', tr') \<Rightarrow> (Returned internal_server_error, s', tr1 @ tr'))))"

text \<open>Lines 347 to 372: the history row, and the guarded compensation when it fails.\<close>

definition append_history ::
  "request \<Rightarrow> post_request \<Rightarrow> js_string \<Rightarrow> bool \<Rightarrow> js_string \<Rightarrow> env \<Rightarrow> store \<Rightarrow> event list
     \<Rightarrow> outcome \<times> store \<times> event list" where
  "append_history rq json author alreadyExists imageId e s tr =
     (let tr1 = tr @ [DbInsertHistory imageId] in
      if history_error e then
        (if \<not> alreadyExists then
           (case rollBack e imageId s of
              (s', tr') \<Rightarrow> (Returned internal_server_error, s', tr1 @ tr'))
         else (Returned internal_server_error, s, tr1))
      else
        persist_blob json imageId e
          (s\<lparr>histories := histories s @
               [\<lparr>hist_id = history_uuid e, hist_author = author,
                 hist_ip = cf_connecting_ip rq, hist_image_id = imageId,
                 hist_created_at = history_now e\<rparr>]\<rparr>)
          tr1)"

text \<open>
  The target of a submission after lines 172 to 229: a new artifact
  (\<open>alreadyExists = false\<close>), or the existing row's id, \<open>oldDeleteHash\<close> and
  \<open>oldCount\<close>.
\<close>

datatype target = NewArtifact | Existing js_string js_string int

text \<open>
  Lines 264 to 333.  The INSERT binds the count 1 and the delete hash of this upload; the
  UPDATE sets \<open>imgurId\<close>, \<open>created_at\<close> and \<open>count\<close> of every row with the id.
\<close>

definition persist_artifact ::
  "request \<Rightarrow> post_request \<Rightarrow> js_string \<Rightarrow> target \<Rightarrow> js_string \<Rightarrow> js_string \<Rightarrow> env \<Rightarrow> store
     \<Rightarrow> event list \<Rightarrow> outcome \<times> store \<times> event list" where
  "persist_artifact rq json author tgt imgurId deleteHash e s tr =
     (case tgt of
        NewArtifact \<Rightarrow>
          (let imageId = image_uuid e;
               tr1 = tr @ [DbInsertImage imageId] in
           if insert_image_error e then (Returned internal_server_error, s, tr1)
           else append_history rq json author False imageId e
                  (s\<lparr>images := images s @
                       [\<lparr>img_id = imageId, img_author = author, img_ip = cf_connecting_ip rq,
                         img_description = req_description json, img_imgurId = imgurId,
                         img_count = 1, img_deleteHash = deleteHash,
                         img_created_at = image_now e\<rparr>]\<rparr>)
                  tr1)
      | Existing imageId oldDeleteHash oldCount \<Rightarrow>
          (let tr1 = tr @ [ImgurDelete oldDeleteHash] in
           if \<not> delete_ok e then (Returned internal_server_error, s, tr1)
           else
             (let tr2 = tr1 @ [DbUpdateImage imageId] in
              if update_error e then (Returned internal_server_error, s, tr2)
              else append_history rq json author True imageId e
                     (s\<lparr>images := map (\<lambda>r. if img_id r = imageId
                                            then r\<lparr>img_imgurId := imgurId,
                                                   img_created_at := image_now e,
                                                   img_count := oldCount + 1\<rparr>
                                            else r) (images s)\<rparr>)
                     tr2)))"

text \<open>
  Lines 231 to 262: the upload, with the data-URI prefix removed by
  \<open>replace(/^data:image\/(png|jpeg);base64,/, "")\<close>.
\<close>

definition strip_data_uri :: "js_string \<Rightarrow> js_string" where
  "strip_data_uri b =
     (let png = js ''data:image/png;base64,''; jpeg = js ''data:image/jpeg;base64,'' in
      if take (length png) b = png then drop (length png) b
      else if take (length jpeg) b = jpeg then drop (length jpeg) b
      else b)"

definition upload_preview ::
  "request \<Rightarrow> post_request \<Rightarrow> js_string \<Rightarrow> target \<Rightarrow> env \<Rightarrow> store \<Rightarrow> event list
     \<Rightarrow> outcome \<times> store \<times> event list" where
  "upload_preview rq json author tgt e s tr =
     (case req_bs json of
        None \<Rightarrow> (Thrown, s, tr)
      | Some b \<Rightarrow>
          (let tr1 = tr @ [ImgurUpload (strip_data_uri b)] in
           case upload e of
             UploadNotOk \<Rightarrow> (Returned upload_rejected, s, tr1)
           | UploadOk imgurId deleteHash \<Rightarrow>
               persist_artifact rq json author tgt imgurId deleteHash e s tr1))"

text \<open>
  \<open>DB.prepare('SELECT * FROM Images WHERE id = ?').bind(id).first()\<close>: the first row
  with the id, or \<open>null\<close> when there is none.
\<close>

definition first_image :: "image_row list \<Rightarrow> js_string \<Rightarrow> image_row option" where
  "first_image rows imageId = find (\<lambda>r. img_id r = imageId) rows"

text \<open>
  \<open>handlePost\<close>.  In the lookup of lines 178 to 229 the test \<open>existingImage.error\<close>
  comes before the test \<open>existingImage\<close>: on the \<open>null\<close> of a missing row the property
  read throws a TypeError, which nothing in the worker catches.  The branch of lines 215
  to 227, which would answer \<open>invalid_image_id\<close>, is therefore never reached.
\<close>

definition handlePost :: "request \<Rightarrow> env \<Rightarrow> store \<Rightarrow> outcome \<times> store \<times> event list" where
  "handlePost rq e s =
     (if http_method rq \<noteq> ''POST'' then (Returned method_not_allowed, s, [])
      else case json_body rq of
        Unparsable \<Rightarrow> (Thrown, s, [])
      | Parsed body \<Rightarrow>
          (case validate body of
             Rejected \<Rightarrow> (Returned bad_request, s, [])
           | Faulted \<Rightarrow> (Thrown, s, [])
           | Accepted author \<Rightarrow>
               (case body of
                  None \<Rightarrow> (Thrown, s, [])
                | Some json \<Rightarrow>
                    (case req_id json of
                       None \<Rightarrow> upload_preview rq json author NewArtifact e s []
                     | Some imageId \<Rightarrow>
                         (let tr = [DbSelectImage imageId] in
                          if select_error e then (Returned internal_server_error, s, tr)
                          else case first_image (images s) imageId of
                                 None \<Rightarrow> (Thrown, s, tr)
                               | Some existingImage \<Rightarrow>
                                   if img_count existingImage \<ge> 10
                                   then (Returned image_completed, s, tr)
                                   else upload_preview rq json author
                                          (Existing imageId (img_deleteHash existingImage)
                                             (img_count existingImage))
                                          e s tr)))))"

text \<open>A sequence of submissions, each with the answers its collaborators give.\<close>

fun run :: "(request \<times> env) list \<Rightarrow> store \<Rightarrow> store" where
  "run [] s = s"
| "run ((rq, e) # rest) s = run rest (fst (snd (handlePost rq e s)))"


section \<open>Notions used in the statements\<close>

text \<open>The format tag of a payload.\<close>

definition magic :: "int list" where
  "magic = [0x23, 0x52, 0xff, 0xac]"

text \<open>The invariant of the revision count, over every row of the table.\<close>

definition count_inv :: "store \<Rightarrow> bool" where
  "count_inv s = (\<forall>r \<in> set (images s). 1 \<le> img_count r \<and> img_count r \<le> 10)"

text \<open>An existing target carries a count that the lock check has let through.\<close>

fun target_ok :: "target \<Rightarrow> bool" where
  "target_ok NewArtifact = True"
| "target_ok (Existing i d c) = (0 \<le> c \<and> c < 10)"

subsection \<open>Concrete submissions\<close>

text \<open>Collaborators that all succeed.\<close>

definition quiet_env :: env where
  "quiet_env =
     \<lparr>select_error = False, upload = UploadOk [0x6E, 0x31] [0x6B, 0x31],
      image_uuid = [0x75, 0x31], image_now = 1000, insert_image_error = False,
      delete_ok = True, update_error = False, history_uuid = [0x75, 0x32],
      history_now = 1001, history_error = False, put_result = PutOk,
      delete_images_error = False, delete_histories_error = False\<rparr>"

definition new_json :: post_request where
  "new_json =
     \<lparr>req_id = None, req_payload = Some [0x23, 0x52, 0xff, 0xac, 7, 300],
      req_description = None, req_author = None, req_bs = Some [0x41, 0x42]\<rparr>"

definition revise_json :: "js_string \<Rightarrow> post_request" where
  "revise_json imageId = new_json\<lparr>req_id := Some imageId\<rparr>"

definition post :: "post_request \<Rightarrow> request" where
  "post json =
     \<lparr>http_method = ''POST'', cf_connecting_ip = None, json_body = Parsed (Some json)\<rparr>"

text \<open>A store with one artifact in its third revision and one history row of it.\<close>

definition sample_row :: image_row where
  "sample_row =
     \<lparr>img_id = [0x61], img_author = [0x62], img_ip = None, img_description = None,
      img_imgurId = [0x6F, 0x31], img_count = 3, img_deleteHash = [0x6F, 0x32],
      img_created_at = 500\<rparr>"

definition sample_history :: history_row where
  "sample_history =
     \<lparr>hist_id = [0x68], hist_author = [0x62], hist_ip = None, hist_image_id = [0x61],
      hist_created_at = 500\<rparr>"

definition sample_store :: store where
  "sample_store = \<lparr>images = [sample_row], histories = [sample_history], bucket = Map.empty\<rparr>"

definition empty_store :: store where
  "empty_store = \<lparr>images = [], histories = [], bucket = Map.empty\<rparr>"

text \<open>One creation followed by nine revisions of the artifact it creates.\<close>

definition ten_submissions :: "(request \<times> env) list" where
  "ten_submissions =
     (post new_json, quiet_env) # replicate 9 (post (revise_json [0x75, 0x31]), quiet_env)"

definition completed_row :: image_row where
  "completed_row =
     \<lparr>img_id = [0x75, 0x31], img_author = default_author, img_ip = None,
      img_description = None, img_imgurId = [0x6E, 0x31], img_count = 10,
      img_deleteHash = [0x6B, 0x31], img_created_at = 1000\<rparr>"

section \<open>Auxiliary facts\<close>

lemmas model_defs = handlePost_def validate_def upload_preview_def persist_artifact_def
  append_history_def persist_blob_def rollBack_def first_image_def payload_at_def
  strip_data_uri_def js_def default_author_def Let_def

lemmas response_defs = method_not_allowed_def bad_request_def internal_server_error_def
  invalid_image_id_def image_completed_def upload_rejected_def post_success_def

lemmas sample_defs = quiet_env_def new_json_def revise_json_def post_def sample_row_def
  sample_history_def sample_store_def empty_store_def

lemma magic_check_iff:
  "(payload_at p 0 = Some 0x23 \<and> payload_at p 1 = Some 0x52
     \<and> payload_at p 2 = Some 0xff \<and> payload_at p 3 = Some 0xac) \<longleftrightarrow> take 4 p = magic"
proof (cases p)
  case Nil
  then show ?thesis by (simp add: payload_at_def magic_def)
next
  case c1: (Cons a p1)
  show ?thesis
  proof (cases p1)
    case Nil
    with c1 show ?thesis by (simp add: payload_at_def magic_def)
  next
    case c2: (Cons b p2)
    show ?thesis
    proof (cases p2)
      case Nil
      with c1 c2 show ?thesis by (simp add: payload_at_def magic_def)
    next
      case c3: (Cons c p3)
      show ?thesis
      proof (cases p3)
        case Nil
        with c1 c2 c3 show ?thesis by (simp add: payload_at_def magic_def)
      next
        case (Cons d p4)
        with c1 c2 c3 show ?thesis by (auto simp add: payload_at_def magic_def)
      qed
    qed
  qed
qed

lemma validate_bad_magic:
  "req_payload json = Some p \<Longrightarrow> take 4 p \<noteq> magic \<Longrightarrow> validate (Some json) = Rejected"
  using magic_check_iff [of p]
  by (auto simp add: validate_def split: option.splits)

lemma validate_new_json: "validate (Some (revise_json i)) = Accepted default_author"
  and validate_new_json': "validate (Some new_json) = Accepted default_author"
  by (simp_all add: validate_def payload_at_def new_json_def revise_json_def default_author_def)

section \<open>Validation\<close>

text \<open>
  C7.  A submission whose payload does not start with the four bytes 0x23, 0x52, 0xFF,
  0xAC (a shorter payload included) is answered with status 400 and reason
  "bad request"; the stores are unchanged and no call has been issued to the database,
  the Preview Host or the bucket.
\<close>

theorem bad_magic_rejected_before_any_call:
  assumes "http_method rq = ''POST''" and "json_body rq = Parsed (Some json)"
    and "req_payload json = Some p" and "take 4 p \<noteq> magic"
  shows "handlePost rq e s =
           (Returned \<lparr>resp_status = 400, resp_body = Failure ''bad request'', resp_cors = True\<rparr>,
            s, [])"
  using assms validate_bad_magic [of json p] by (simp add: handlePost_def bad_request_def)

theorem bad_magic_rejected_witness:
  "http_method (post (new_json\<lparr>req_payload := Some [0x23, 0x52, 0xff]\<rparr>)) = ''POST''
   \<and> take 4 [0x23, 0x52, 0xff] \<noteq> magic
   \<and> handlePost (post (new_json\<lparr>req_payload := Some [0x23, 0x52, 0xff]\<rparr>)) quiet_env sample_store =
       (Returned \<lparr>resp_status = 400, resp_body = Failure ''bad request'', resp_cors = True\<rparr>,
        sample_store, [])"
  using bad_magic_rejected_before_any_call
    [of "post (new_json\<lparr>req_payload := Some [0x23, 0x52, 0xff]\<rparr>)"
        "new_json\<lparr>req_payload := Some [0x23, 0x52, 0xff]\<rparr>" "[0x23, 0x52, 0xff]"
        quiet_env sample_store]
  by (simp add: post_def new_json_def magic_def)

section \<open>The revision count\<close>

lemma first_image_mem: "first_image rows i = Some row \<Longrightarrow> row \<in> set rows \<and> img_id row = i"
  by (auto simp add: first_image_def find_Some_iff)

lemma first_image_map:
  assumes "\<And>r. img_id (f r) = img_id r"
  shows "first_image (map f rows) i = map_option f (first_image rows i)"
  unfolding first_image_def using assms by (induction rows) auto

lemma rollBack_inv: "count_inv s \<Longrightarrow> count_inv (fst (rollBack e i s))"
  by (simp add: rollBack_def count_inv_def Let_def)

lemma persist_blob_inv: "count_inv s \<Longrightarrow> count_inv (fst (snd (persist_blob json i e s tr)))"
  using rollBack_inv [of s e i]
  by (auto simp add: persist_blob_def Let_def count_inv_def
      split: option.splits put_response.splits prod.splits)

lemma append_history_inv:
  assumes inv: "count_inv s"
  shows "count_inv (fst (snd (append_history rq json a ex i e s tr)))"
proof -
  let ?s1 = "s\<lparr>histories := histories s @
               [\<lparr>hist_id = history_uuid e, hist_author = a,
                 hist_ip = cf_connecting_ip rq, hist_image_id = i,
                 hist_created_at = history_now e\<rparr>]\<rparr>"
  from inv have "count_inv ?s1" by (simp add: count_inv_def)
  then have "count_inv (fst (snd (persist_blob json i e ?s1 (tr @ [DbInsertHistory i]))))"
    by (rule persist_blob_inv)
  with inv rollBack_inv [OF inv, of e i] show ?thesis
    by (auto simp add: append_history_def Let_def split: prod.splits)
qed

lemma persist_artifact_inv:
  assumes inv: "count_inv s" and tgt: "target_ok tgt"
  shows "count_inv (fst (snd (persist_artifact rq json a tgt g d e s tr)))"
proof (cases tgt)
  case NewArtifact
  let ?s1 = "s\<lparr>images := images s @
               [\<lparr>img_id = image_uuid e, img_author = a, img_ip = cf_connecting_ip rq,
                 img_description = req_description json, img_imgurId = g,
                 img_count = 1, img_deleteHash = d, img_created_at = image_now e\<rparr>]\<rparr>"
  from inv have "count_inv ?s1" by (simp add: count_inv_def)
  then have "count_inv (fst (snd (append_history rq json a False (image_uuid e) e ?s1
                 (tr @ [DbInsertImage (image_uuid e)]))))"
    by (rule append_history_inv)
  with inv NewArtifact show ?thesis by (simp add: persist_artifact_def Let_def)
next
  case (Existing i od oc)
  let ?s1 = "s\<lparr>images := map (\<lambda>r. if img_id r = i
                                    then r\<lparr>img_imgurId := g, img_created_at := image_now e,
                                           img_count := oc + 1\<rparr>
                                    else r) (images s)\<rparr>"
  from tgt Existing have "0 \<le> oc" "oc < 10" by simp_all
  with inv have "count_inv ?s1" by (auto simp add: count_inv_def)
  then have "count_inv (fst (snd (append_history rq json a True i e ?s1
                 (tr @ [ImgurDelete od] @ [DbUpdateImage i]))))"
    by (rule append_history_inv)
  with inv Existing show ?thesis by (simp add: persist_artifact_def Let_def)
qed

lemma upload_preview_inv:
  assumes inv: "count_inv s" and tgt: "target_ok tgt"
  shows "count_inv (fst (snd (upload_preview rq json a tgt e s tr)))"
  using inv persist_artifact_inv [OF inv tgt]
  by (simp add: upload_preview_def Let_def split: option.splits upload_response.splits)

lemma handlePost_inv:
  assumes inv: "count_inv s"
  shows "count_inv (fst (snd (handlePost rq e s)))"
proof -
  have ex: "count_inv (fst (snd (upload_preview rq json a
              (Existing i (img_deleteHash row) (img_count row)) e s tr)))"
    if "first_image (images s) i = Some row" "\<not> 10 \<le> img_count row" for json a i row tr
  proof -
    from that(1) inv have "1 \<le> img_count row"
      using first_image_mem [of "images s" i row] by (auto simp add: count_inv_def)
    with that(2) have "target_ok (Existing i (img_deleteHash row) (img_count row))" by simp
    with inv show ?thesis by (rule upload_preview_inv)
  qed
  have new: "count_inv (fst (snd (upload_preview rq json a NewArtifact e s tr)))" for json a tr
    using inv by (rule upload_preview_inv) simp
  from inv ex new show ?thesis
    by (simp add: handlePost_def Let_def split: json_body.splits validation.splits option.splits)
qed

lemma run_inv: "count_inv s \<Longrightarrow> count_inv (run rs s)"
proof (induction rs arbitrary: s)
  case Nil
  then show ?case by simp
next
  case (Cons x rs)
  obtain rq e where x: "x = (rq, e)" by (cases x)
  from Cons.prems have "count_inv (fst (snd (handlePost rq e s)))" by (rule handlePost_inv)
  then show ?case using Cons.IH x by simp
qed

lemma locked_revision:
  assumes "http_method rq = ''POST''" and "json_body rq = Parsed (Some json)"
    and "validate (Some json) = Accepted a" and "req_id json = Some i"
    and "\<not> select_error e" and "first_image (images s) i = Some row" and "10 \<le> img_count row"
  shows "handlePost rq e s = (Returned image_completed, s, [DbSelectImage i])"
  using assms by (simp add: handlePost_def Let_def)

lemma revision_success:
  assumes "http_method rq = ''POST''" and "json_body rq = Parsed (Some json)"
    and "req_id json = Some i"
    and "handlePost rq e s = (Returned r, s', tr)" and "resp_status r = 200"
  shows "\<exists>row g d. first_image (images s) i = Some row \<and> img_count row < 10
           \<and> upload e = UploadOk g d \<and> r = post_success i
           \<and> images s' = map (\<lambda>x. if img_id x = i
                                     then x\<lparr>img_imgurId := g, img_created_at := image_now e,
                                            img_count := img_count row + 1\<rparr>
                                     else x) (images s)
           \<and> (\<exists>h. histories s' = histories s @ [h] \<and> hist_image_id h = i)"
  using assms
  by (auto simp add: handlePost_def upload_preview_def persist_artifact_def append_history_def
        persist_blob_def rollBack_def Let_def response_defs
      split: validation.splits option.splits if_splits upload_response.splits put_response.splits)

lemma creation_success:
  assumes "http_method rq = ''POST''" and "json_body rq = Parsed (Some json)"
    and "req_id json = None"
    and "handlePost rq e s = (Returned r, s', tr)" and "resp_status r = 200"
  shows "r = post_success (image_uuid e)
           \<and> (\<exists>row. images s' = images s @ [row] \<and> img_id row = image_uuid e \<and> img_count row = 1)
           \<and> (\<exists>h. histories s' = histories s @ [h] \<and> hist_image_id h = image_uuid e)"
  using assms
  by (auto simp add: handlePost_def upload_preview_def persist_artifact_def append_history_def
        persist_blob_def rollBack_def Let_def response_defs
      split: validation.splits option.splits if_splits upload_response.splits put_response.splits)

lemma creation_runs:
  assumes "http_method rq = ''POST''" and "json_body rq = Parsed (Some json)"
    and "req_id json = None" and "validate (Some json) = Accepted a"
    and "upload e \<noteq> UploadNotOk" and "\<not> insert_image_error e" and "\<not> history_error e"
    and "put_result e = PutOk"
  shows "fst (handlePost rq e s) = Returned (post_success (image_uuid e))"
  using assms
  by (auto simp add: handlePost_def upload_preview_def persist_artifact_def append_history_def
        persist_blob_def Let_def validate_def
      split: option.splits if_splits upload_response.splits)

lemma revision_increments:
  assumes "http_method rq = ''POST''" and "json_body rq = Parsed (Some json)"
    and "req_id json = Some i"
    and "handlePost rq e s = (Returned r, s', tr)" and "resp_status r = 200"
  shows "\<exists>row row'. first_image (images s) i = Some row \<and> first_image (images s') i = Some row'
           \<and> img_count row' = img_count row + 1"
proof -
  from revision_success [OF assms] obtain row g d where
    row: "first_image (images s) i = Some row" and
    imgs: "images s' = map (\<lambda>x. if img_id x = i
                                   then x\<lparr>img_imgurId := g, img_created_at := image_now e,
                                          img_count := img_count row + 1\<rparr>
                                   else x) (images s)"
    by blast
  from row have "img_id row = i" using first_image_mem by blast
  with row imgs show ?thesis by (simp add: first_image_map)
qed

lemma ten_submissions_images: "images (run ten_submissions empty_store) = [completed_row]"
  by (simp add: ten_submissions_def completed_row_def model_defs sample_defs response_defs
        eval_nat_numeral)

lemma creation_on_empty:
  "handlePost (post new_json) quiet_env empty_store =
     (Returned (post_success [0x75, 0x31]),
      fst (snd (handlePost (post new_json) quiet_env empty_store)),
      snd (snd (handlePost (post new_json) quiet_env empty_store)))"
  by (simp add: model_defs sample_defs)

lemma revision_on_sample:
  "handlePost (post (revise_json [0x61])) quiet_env sample_store =
     (Returned (post_success [0x61]),
      fst (snd (handlePost (post (revise_json [0x61])) quiet_env sample_store)),
      snd (snd (handlePost (post (revise_json [0x61])) quiet_env sample_store)))"
  by (simp add: model_defs sample_defs)

text \<open>
  C2.  From a store in which every revision count lies between 1 and 10, every sequence
  of submissions leads to such a store.  A submission without an id that succeeds adds a
  row with count 1; a submission for an id that succeeds raises the count of the row
  found for it by exactly 1; and a validated submission for an id whose row has count 10
  is answered with status 423, the store unchanged, after the lookup alone.
\<close>

theorem revision_count_bounded:
  assumes "count_inv s"
  shows "count_inv (run rs s)
    \<and> (http_method rq = ''POST'' \<and> json_body rq = Parsed (Some json) \<and> req_id json = None
         \<and> handlePost rq e s = (Returned r, s', tr) \<and> resp_status r = 200
       \<longrightarrow> (\<exists>row. images s' = images s @ [row] \<and> img_count row = 1))
    \<and> (http_method rq = ''POST'' \<and> json_body rq = Parsed (Some json) \<and> req_id json = Some i
         \<and> handlePost rq e s = (Returned r, s', tr) \<and> resp_status r = 200
       \<longrightarrow> (\<exists>row row'. first_image (images s) i = Some row
              \<and> first_image (images s') i = Some row'
              \<and> img_count row' = img_count row + 1 \<and> img_count row' \<le> 10))
    \<and> (http_method rq = ''POST'' \<and> json_body rq = Parsed (Some json)
         \<and> validate (Some json) = Accepted a \<and> req_id json = Some i \<and> \<not> select_error e
         \<and> first_image (images s) i = Some locked \<and> img_count locked = 10
       \<longrightarrow> handlePost rq e s =
             (Returned \<lparr>resp_status = 423,
                        resp_body = Failure ''this image is already completed'',
                        resp_cors = False\<rparr>,
              s, [DbSelectImage i]))"
proof (intro conjI impI)
  show "count_inv (run rs s)" using assms by (rule run_inv)
next
  assume "http_method rq = ''POST'' \<and> json_body rq = Parsed (Some json) \<and> req_id json = None
         \<and> handlePost rq e s = (Returned r, s', tr) \<and> resp_status r = 200"
  then show "\<exists>row. images s' = images s @ [row] \<and> img_count row = 1"
    using creation_success [of rq json e s r s' tr] by blast
next
  assume h: "http_method rq = ''POST'' \<and> json_body rq = Parsed (Some json) \<and> req_id json = Some i
         \<and> handlePost rq e s = (Returned r, s', tr) \<and> resp_status r = 200"
  then obtain row row' where rr: "first_image (images s) i = Some row"
      "first_image (images s') i = Some row'" "img_count row' = img_count row + 1"
    using revision_increments [of rq json i e s r s' tr] by blast
  from h have "count_inv (fst (snd (handlePost rq e s)))" using assms handlePost_inv by blast
  with h have "count_inv s'" by simp
  with rr(2) have "img_count row' \<le> 10"
    using first_image_mem [of "images s'" i row'] by (auto simp add: count_inv_def)
  with rr show "\<exists>row row'. first_image (images s) i = Some row
              \<and> first_image (images s') i = Some row'
              \<and> img_count row' = img_count row + 1 \<and> img_count row' \<le> 10" by blast
next
  assume "http_method rq = ''POST'' \<and> json_body rq = Parsed (Some json)
         \<and> validate (Some json) = Accepted a \<and> req_id json = Some i \<and> \<not> select_error e
         \<and> first_image (images s) i = Some locked \<and> img_count locked = 10"
  then show "handlePost rq e s =
             (Returned \<lparr>resp_status = 423,
                        resp_body = Failure ''this image is already completed'',
                        resp_cors = False\<rparr>,
              s, [DbSelectImage i])"
    using locked_revision [of rq json a i e s locked] by (simp add: image_completed_def)
qed

theorem revision_count_bounded_witness:
  "count_inv empty_store
   \<and> count_inv (run ten_submissions empty_store)
   \<and> images (run ten_submissions empty_store) = [completed_row]
   \<and> img_count completed_row = 10
   \<and> handlePost (post (revise_json [0x75, 0x31])) quiet_env (run ten_submissions empty_store) =
       (Returned \<lparr>resp_status = 423, resp_body = Failure ''this image is already completed'',
                  resp_cors = False\<rparr>,
        run ten_submissions empty_store, [DbSelectImage [0x75, 0x31]])
   \<and> (\<exists>row. images (fst (snd (handlePost (post new_json) quiet_env empty_store))) = [row]
          \<and> img_count row = 1)
   \<and> count_inv sample_store
   \<and> (\<exists>row'. first_image (images (fst (snd (handlePost (post (revise_json [0x61])) quiet_env
                                               sample_store)))) [0x61] = Some row'
          \<and> img_count row' = 4)"
proof -
  have inv0: "count_inv empty_store" by (simp add: count_inv_def empty_store_def)
  have inv1: "count_inv sample_store"
    by (simp add: count_inv_def sample_store_def sample_row_def)
  note imgs = ten_submissions_images
  have c10: "img_count completed_row = 10" by (simp add: completed_row_def)
  have inv10: "count_inv (run ten_submissions empty_store)"
    using revision_count_bounded [OF inv0, of ten_submissions] by (rule conjunct1)
  have locked: "handlePost (post (revise_json [0x75, 0x31])) quiet_env (run ten_submissions empty_store) =
       (Returned \<lparr>resp_status = 423, resp_body = Failure ''this image is already completed'',
                  resp_cors = False\<rparr>,
        run ten_submissions empty_store, [DbSelectImage [0x75, 0x31]])"
    using revision_count_bounded [OF inv10, where rq = "post (revise_json [0x75, 0x31])"
        and json = "revise_json [0x75, 0x31]" and a = default_author and i = "[0x75, 0x31]"
        and e = quiet_env and locked = completed_row]
      imgs c10 validate_new_json [of "[0x75, 0x31]"]
    by (simp add: post_def revise_json_def quiet_env_def first_image_def completed_row_def)
  have created: "\<exists>row. images (fst (snd (handlePost (post new_json) quiet_env empty_store))) = [row]
          \<and> img_count row = 1"
    using revision_count_bounded [OF inv0, where rq = "post new_json" and json = new_json
        and e = quiet_env and r = "post_success [0x75, 0x31]"
        and s' = "fst (snd (handlePost (post new_json) quiet_env empty_store))"
        and tr = "snd (snd (handlePost (post new_json) quiet_env empty_store))"]
      creation_on_empty
    by (simp add: post_def new_json_def post_success_def empty_store_def)
  have revised: "\<exists>row'. first_image (images (fst (snd (handlePost (post (revise_json [0x61])) quiet_env
                                               sample_store)))) [0x61] = Some row'
          \<and> img_count row' = 4"
  proof -
    let ?s' = "fst (snd (handlePost (post (revise_json [0x61])) quiet_env sample_store))"
    let ?tr = "snd (snd (handlePost (post (revise_json [0x61])) quiet_env sample_store))"
    have h: "http_method (post (revise_json [0x61])) = ''POST''
        \<and> json_body (post (revise_json [0x61])) = Parsed (Some (revise_json [0x61]))
        \<and> req_id (revise_json [0x61]) = Some [0x61]
        \<and> handlePost (post (revise_json [0x61])) quiet_env sample_store =
            (Returned (post_success [0x61]), ?s', ?tr)
        \<and> resp_status (post_success [0x61]) = 200"
      using revision_on_sample by (simp add: post_def revise_json_def post_success_def)
    have old: "first_image (images sample_store) [0x61] = Some sample_row"
      by (simp add: first_image_def sample_store_def sample_row_def)
    from revision_count_bounded [OF inv1, where rq = "post (revise_json [0x61])"
        and json = "revise_json [0x61]" and i = "[0x61]"
        and e = quiet_env and r = "post_success [0x61]" and s' = ?s' and tr = ?tr] h
    obtain row row' where "first_image (images sample_store) [0x61] = Some row"
      and "first_image (images ?s') [0x61] = Some row'"
      and "img_count row' = img_count row + 1"
      by blast
    with old have "first_image (images ?s') [0x61] = Some row' \<and> img_count row' = 4"
      by (simp add: sample_row_def)
    then show ?thesis by blast
  qed
  from inv0 inv10 imgs c10 locked created inv1 revised show ?thesis by blast
qed

section \<open>Creation and revision\<close>

text \<open>
  C8.  For a validated submission without an artifact id: when the upload, both INSERT
  statements and the bucket write succeed, the response is the success response carrying
  the generated id; and whenever the response has status 200, it carries the generated
  id, the row appended to \<open>Images\<close> has that id and count 1, and the row appended to
  \<open>Histories\<close> refers to that id.
\<close>

theorem new_submission_creates_artifact:
  assumes "http_method rq = ''POST''" and "json_body rq = Parsed (Some json)"
    and "req_id json = None" and "validate (Some json) = Accepted a"
  shows "(upload e \<noteq> UploadNotOk \<and> \<not> insert_image_error e \<and> \<not> history_error e
            \<and> put_result e = PutOk
          \<longrightarrow> fst (handlePost rq e s) =
                Returned \<lparr>resp_status = 200, resp_body = Success (image_uuid e),
                           resp_cors = True\<rparr>)
       \<and> (handlePost rq e s = (Returned r, s', tr) \<and> resp_status r = 200
          \<longrightarrow> r = \<lparr>resp_status = 200, resp_body = Success (image_uuid e), resp_cors = True\<rparr>
              \<and> (\<exists>row. images s' = images s @ [row] \<and> img_id row = image_uuid e
                      \<and> img_count row = 1)
              \<and> (\<exists>h. histories s' = histories s @ [h] \<and> hist_image_id h = image_uuid e))"
proof (intro conjI impI)
  assume "upload e \<noteq> UploadNotOk \<and> \<not> insert_image_error e \<and> \<not> history_error e
            \<and> put_result e = PutOk"
  with assms show "fst (handlePost rq e s) =
      Returned \<lparr>resp_status = 200, resp_body = Success (image_uuid e), resp_cors = True\<rparr>"
    using creation_runs [of rq json a e s] by (simp add: post_success_def)
next
  assume h: "handlePost rq e s = (Returned r, s', tr) \<and> resp_status r = 200"
  note c = creation_success [OF assms(1) assms(2) assms(3) conjunct1 [OF h] conjunct2 [OF h]]
  from c show "r = \<lparr>resp_status = 200, resp_body = Success (image_uuid e), resp_cors = True\<rparr>"
    by (simp add: post_success_def)
  from c show "\<exists>row. images s' = images s @ [row] \<and> img_id row = image_uuid e
                      \<and> img_count row = 1" by blast
  from c show "\<exists>h. histories s' = histories s @ [h] \<and> hist_image_id h = image_uuid e"
    by blast
qed

theorem new_submission_creates_artifact_witness:
  "http_method (post new_json) = ''POST''
   \<and> req_id new_json = None
   \<and> validate (Some new_json) = Accepted default_author
   \<and> fst (handlePost (post new_json) quiet_env sample_store) =
       Returned \<lparr>resp_status = 200, resp_body = Success [0x75, 0x31], resp_cors = True\<rparr>
   \<and> (\<exists>row. images (fst (snd (handlePost (post new_json) quiet_env sample_store))) =
               [sample_row, row] \<and> img_id row = [0x75, 0x31] \<and> img_count row = 1)
   \<and> (\<exists>h. histories (fst (snd (handlePost (post new_json) quiet_env sample_store))) =
             [sample_history, h] \<and> hist_image_id h = [0x75, 0x31])"
proof -
  let ?s' = "fst (snd (handlePost (post new_json) quiet_env sample_store))"
  let ?tr = "snd (snd (handlePost (post new_json) quiet_env sample_store))"
  let ?ok = "\<lparr>resp_status = 200, resp_body = Success [0x75, 0x31], resp_cors = True\<rparr>"
  have m: "http_method (post new_json) = ''POST''"
    and b: "json_body (post new_json) = Parsed (Some new_json)"
    by (simp_all add: post_def)
  have i: "req_id new_json = None" by (simp add: new_json_def)
  note v = validate_new_json'
  note t = new_submission_creates_artifact [OF m b i v, of quiet_env sample_store ?ok ?s' ?tr]
  have q: "upload quiet_env \<noteq> UploadNotOk \<and> \<not> insert_image_error quiet_env
      \<and> \<not> history_error quiet_env \<and> put_result quiet_env = PutOk"
    and u: "image_uuid quiet_env = [0x75, 0x31]"
    by (simp_all add: quiet_env_def)
  from t q u have out: "fst (handlePost (post new_json) quiet_env sample_store) = Returned ?ok"
    by simp
  then have "handlePost (post new_json) quiet_env sample_store = (Returned ?ok, ?s', ?tr)"
    by (simp add: prod_eq_iff)
  with t u have "(\<exists>row. images ?s' = images sample_store @ [row] \<and> img_id row = [0x75, 0x31]
                      \<and> img_count row = 1)
              \<and> (\<exists>h. histories ?s' = histories sample_store @ [h]
                      \<and> hist_image_id h = [0x75, 0x31])"
    by simp
  then have "(\<exists>row. images ?s' = [sample_row, row] \<and> img_id row = [0x75, 0x31]
                      \<and> img_count row = 1)
              \<and> (\<exists>h. histories ?s' = [sample_history, h] \<and> hist_image_id h = [0x75, 0x31])"
    by (simp add: sample_store_def)
  with m i v out show ?thesis by blast
qed

text \<open>
  C10.  A submission for an existing id that is answered with status 200 leaves the
  \<open>Images\<close> table as the old one with the columns \<open>imgurId\<close>, \<open>created_at\<close> and
  \<open>count\<close> rewritten in the rows of that id: row by row, the id, author, ip and
  description are the old ones, and a row of another id is the old row.
\<close>

theorem revision_update_frame:
  assumes "http_method rq = ''POST''" and "json_body rq = Parsed (Some json)"
    and "req_id json = Some i"
    and "handlePost rq e s = (Returned r, s', tr)" and "resp_status r = 200"
  shows "(\<exists>g t c. images s' =
            map (\<lambda>row. if img_id row = i
                        then row\<lparr>img_imgurId := g, img_created_at := t, img_count := c\<rparr>
                        else row) (images s))
       \<and> list_all2 (\<lambda>row row'. img_id row' = img_id row \<and> img_author row' = img_author row
                      \<and> img_ip row' = img_ip row
                      \<and> img_description row' = img_description row
                      \<and> (img_id row \<noteq> i \<longrightarrow> row' = row))
           (images s) (images s')"
proof -
  from revision_success [OF assms] obtain row :: image_row and g where
    imgs: "images s' = map (\<lambda>x. if img_id x = i
                                   then x\<lparr>img_imgurId := g, img_created_at := image_now e,
                                          img_count := img_count row + 1\<rparr>
                                   else x) (images s)"
    by blast
  then have "\<exists>g t c. images s' =
            map (\<lambda>row. if img_id row = i
                        then row\<lparr>img_imgurId := g, img_created_at := t, img_count := c\<rparr>
                        else row) (images s)"
    by blast
  moreover from imgs have "list_all2 (\<lambda>row row'. img_id row' = img_id row
                      \<and> img_author row' = img_author row \<and> img_ip row' = img_ip row
                      \<and> img_description row' = img_description row
                      \<and> (img_id row \<noteq> i \<longrightarrow> row' = row))
           (images s) (images s')"
    by (simp add: list_all2_map2 list_all2_same)
  ultimately show ?thesis by blast
qed

text \<open>A second artifact beside the sample one, untouched by a revision of the first.\<close>

theorem revision_update_frame_witness:
  "resp_status (post_success [0x61]) = 200
   \<and> req_id (revise_json [0x61]) = Some [0x61]
   \<and> fst (handlePost (post (revise_json [0x61])) quiet_env
            (sample_store\<lparr>images := [sample_row, completed_row]\<rparr>)) =
       Returned (post_success [0x61])
   \<and> list_all2 (\<lambda>row row'. img_id row' = img_id row \<and> img_author row' = img_author row
                  \<and> img_ip row' = img_ip row \<and> img_description row' = img_description row
                  \<and> (img_id row \<noteq> [0x61] \<longrightarrow> row' = row))
       [sample_row, completed_row]
       (images (fst (snd (handlePost (post (revise_json [0x61])) quiet_env
                            (sample_store\<lparr>images := [sample_row, completed_row]\<rparr>)))))"
proof -
  let ?s = "sample_store\<lparr>images := [sample_row, completed_row]\<rparr>"
  let ?s' = "fst (snd (handlePost (post (revise_json [0x61])) quiet_env ?s))"
  let ?tr = "snd (snd (handlePost (post (revise_json [0x61])) quiet_env ?s))"
  have m: "http_method (post (revise_json [0x61])) = ''POST''"
    and b: "json_body (post (revise_json [0x61])) = Parsed (Some (revise_json [0x61]))"
    by (simp_all add: post_def)
  have i: "req_id (revise_json [0x61]) = Some [0x61]" by (simp add: revise_json_def)
  have st: "resp_status (post_success [0x61]) = 200" by (simp add: post_success_def)
  have out: "fst (handlePost (post (revise_json [0x61])) quiet_env ?s) =
      Returned (post_success [0x61])"
    by (simp add: model_defs sample_defs completed_row_def)
  then have run: "handlePost (post (revise_json [0x61])) quiet_env ?s =
      (Returned (post_success [0x61]), ?s', ?tr)"
    by (simp add: prod_eq_iff)
  from revision_update_frame [OF m b i run st]
  have "list_all2 (\<lambda>row row'. img_id row' = img_id row \<and> img_author row' = img_author row
                  \<and> img_ip row' = img_ip row \<and> img_description row' = img_description row
                  \<and> (img_id row \<noteq> [0x61] \<longrightarrow> row' = row))
       (images ?s) (images ?s')"
    by (rule conjunct2)
  then have "list_all2 (\<lambda>row row'. img_id row' = img_id row \<and> img_author row' = img_author row
                  \<and> img_ip row' = img_ip row \<and> img_description row' = img_description row
                  \<and> (img_id row \<noteq> [0x61] \<longrightarrow> row' = row))
       [sample_row, completed_row] (images ?s')"
    by simp
  with st i out show ?thesis by blast
qed

section \<open>The presence check on the image data\<close>

text \<open>
  C9, as the code has it.  A submission whose \<open>_bs\<close> field is absent is answered with
  status 400 and reason "bad request", nothing else being done; so the workflow proceeds
  only when \<open>_bs\<close> is present.  The check is \<open>json._bs == null\<close>: it does not
  look at the length of the string.
\<close>

theorem absent_bs_rejected:
  assumes "http_method rq = ''POST''" and "json_body rq = Parsed (Some json)"
    and "req_bs json = None"
  shows "handlePost rq e s =
           (Returned \<lparr>resp_status = 400, resp_body = Failure ''bad request'', resp_cors = True\<rparr>,
            s, [])"
  using assms by (simp add: handlePost_def validate_def bad_request_def)

theorem absent_bs_rejected_witness:
  "http_method (post (new_json\<lparr>req_bs := None\<rparr>)) = ''POST''
   \<and> req_bs (new_json\<lparr>req_bs := None\<rparr>) = None
   \<and> handlePost (post (new_json\<lparr>req_bs := None\<rparr>)) quiet_env sample_store =
       (Returned \<lparr>resp_status = 400, resp_body = Failure ''bad request'', resp_cors = True\<rparr>,
        sample_store, [])"
  using absent_bs_rejected
    [of "post (new_json\<lparr>req_bs := None\<rparr>)" "new_json\<lparr>req_bs := None\<rparr>"
        quiet_env sample_store]
  by (simp add: post_def)

text \<open>
  The claim as stated fails on the empty string: the submission passes the check, the
  empty image is sent to the Preview Host and the artifact is created.
\<close>

theorem empty_bs_accepted_counterexample:
  "req_bs (new_json\<lparr>req_bs := Some []\<rparr>) = Some []
   \<and> fst (handlePost (post (new_json\<lparr>req_bs := Some []\<rparr>)) quiet_env empty_store) =
       Returned \<lparr>resp_status = 200, resp_body = Success [0x75, 0x31], resp_cors = True\<rparr>
   \<and> snd (snd (handlePost (post (new_json\<lparr>req_bs := Some []\<rparr>)) quiet_env empty_store)) =
       [ImgurUpload [], DbInsertImage [0x75, 0x31], DbInsertHistory [0x75, 0x31],
        BucketPut [0x75, 0x31, 0x2E, 0x62, 0x69, 0x6E]]"
  by (simp add: model_defs sample_defs response_defs)

section \<open>Where the handler departs from its description\<close>

lemma absent_payload_always_throws:
  assumes "http_method rq = ''POST''" and "json_body rq = Parsed (Some json)"
    and "req_bs json = Some b" and "req_description json = None"
    and "req_payload json = None"
  shows "handlePost rq e s = (Thrown, s, [])"
  using assms by (simp add: handlePost_def validate_def)

lemma unknown_id_always_throws:
  assumes "http_method rq = ''POST''" and "json_body rq = Parsed (Some json)"
    and "validate (Some json) = Accepted a" and "req_id json = Some i"
    and "\<not> select_error e" and "first_image (images s) i = None"
  shows "handlePost rq e s = (Thrown, s, [DbSelectImage i])"
  using assms by (simp add: handlePost_def Let_def)

lemma upload_failure_always_bad_request:
  assumes "req_bs json = Some b" and "upload e = UploadNotOk"
  shows "upload_preview rq json a tgt e s tr =
           (Returned \<lparr>resp_status = 500, resp_body = Failure ''bad request'', resp_cors = True\<rparr>,
            s, tr @ [ImgurUpload (strip_data_uri b)])"
  using assms by (simp add: upload_preview_def Let_def upload_rejected_def)

lemma blob_failure_always_rolls_back:
  assumes "req_payload json = Some p" and "put_result e \<noteq> PutOk"
    and "\<not> delete_images_error e" and "\<not> delete_histories_error e"
  shows "persist_blob json i e s tr =
           (Returned internal_server_error,
            s\<lparr>images := filter (\<lambda>r. img_id r \<noteq> i) (images s),
              histories := filter (\<lambda>h. hist_image_id h \<noteq> i) (histories s)\<rparr>,
            tr @ [BucketPut (i @ js ''.bin''), DbDeleteImages i, DbDeleteHistories i])"
  using assms by (cases "put_result e") (simp_all add: persist_blob_def rollBack_def Let_def)

text \<open>
  C1.  A revision of the existing artifact \<open>[0x61]\<close> whose bucket write returns
  \<open>null\<close>, or throws: both DELETE statements of \<open>rollBack\<close> are issued, and the
  artifact row and its history rows, the earlier one included, are gone.
\<close>

theorem blob_failure_deletes_existing_artifact:
  "handlePost (post (revise_json [0x61])) (quiet_env\<lparr>put_result := PutNull\<rparr>) sample_store =
     (Returned \<lparr>resp_status = 500, resp_body = Failure ''internal server error'',
                resp_cors = True\<rparr>,
      \<lparr>images = [], histories = [], bucket = Map.empty\<rparr>,
      [DbSelectImage [0x61], ImgurUpload [0x41, 0x42], ImgurDelete [0x6F, 0x32],
       DbUpdateImage [0x61], DbInsertHistory [0x61],
       BucketPut [0x61, 0x2E, 0x62, 0x69, 0x6E], DbDeleteImages [0x61],
       DbDeleteHistories [0x61]])
   \<and> handlePost (post (revise_json [0x61])) (quiet_env\<lparr>put_result := PutThrows\<rparr>) sample_store =
     (Returned \<lparr>resp_status = 500, resp_body = Failure ''internal server error'',
                resp_cors = True\<rparr>,
      \<lparr>images = [], histories = [], bucket = Map.empty\<rparr>,
      [DbSelectImage [0x61], ImgurUpload [0x41, 0x42], ImgurDelete [0x6F, 0x32],
       DbUpdateImage [0x61], DbInsertHistory [0x61],
       BucketPut [0x61, 0x2E, 0x62, 0x69, 0x6E], DbDeleteImages [0x61],
       DbDeleteHistories [0x61]])"
  by (simp add: model_defs sample_defs response_defs)

text \<open>
  C3.  A valid submission for the id \<open>[0x7A]\<close>, which no row has: the lookup yields
  \<open>null\<close>, reading \<open>.error\<close> of it throws, and no response is returned.  The
  stores are unchanged.
\<close>

theorem unknown_id_throws:
  "handlePost (post (revise_json [0x7A])) quiet_env sample_store =
     (Thrown, sample_store, [DbSelectImage [0x7A]])"
  by (simp add: model_defs sample_defs response_defs)

text \<open>
  C4.  A successful revision of the artifact \<open>[0x61]\<close>: the Preview Host returns the
  asset id \<open>[0x6E, 0x31]\<close> and the delete hash \<open>[0x6B, 0x31]\<close>; the row takes the asset
  id, the count 4 and the new time, and keeps the delete hash \<open>[0x6F, 0x32]\<close> of the asset
  that has just been deleted.
\<close>

theorem revision_keeps_old_delete_hash:
  "upload quiet_env = UploadOk [0x6E, 0x31] [0x6B, 0x31]
   \<and> fst (handlePost (post (revise_json [0x61])) quiet_env sample_store) =
       Returned \<lparr>resp_status = 200, resp_body = Success [0x61], resp_cors = True\<rparr>
   \<and> images (fst (snd (handlePost (post (revise_json [0x61])) quiet_env sample_store))) =
       [\<lparr>img_id = [0x61], img_author = [0x62], img_ip = None, img_description = None,
         img_imgurId = [0x6E, 0x31], img_count = 4, img_deleteHash = [0x6F, 0x32],
         img_created_at = 1000\<rparr>]"
  by (simp add: model_defs sample_defs response_defs)

text \<open>
  C5.  A submission with \<open>_bs\<close> present and no \<open>payload\<close> field: the input check
  throws instead of answering with status 400.
\<close>

theorem absent_payload_throws:
  "req_payload (new_json\<lparr>req_payload := None\<rparr>) = None
   \<and> handlePost (post (new_json\<lparr>req_payload := None\<rparr>)) quiet_env sample_store =
       (Thrown, sample_store, [])"
  by (simp add: model_defs sample_defs response_defs)

text \<open>
  C6.  A valid submission whose upload to the Preview Host is not \<open>ok\<close>: status 500
  with the reason "bad request"; the stores are unchanged and only the upload was issued.
\<close>

theorem upload_failure_reason:
  "handlePost (post new_json) (quiet_env\<lparr>upload := UploadNotOk\<rparr>) sample_store =
     (Returned \<lparr>resp_status = 500, resp_body = Failure ''bad request'', resp_cors = True\<rparr>,
      sample_store, [ImgurUpload [0x41, 0x42]])"
  by (simp add: model_defs sample_defs response_defs)

end
